theory Spec2Isabelle
  imports Complex_Main "HOL-Library.Sublist"
begin

section \<open>Curve pool transaction parsing: data model\<close>

text \<open>
  The embedded module classifies a block-explorer transaction sent to a Curve pool:
  \<^verbatim>\<open>parseTransaction\<close> guards and decodes, then dispatches on the decoded function name to
  \<^verbatim>\<open>parseRemoveLiquidity\<close>, \<^verbatim>\<open>parseAddLiquidity\<close> or \<^verbatim>\<open>parseExchange\<close>.

  Values of the external libraries are modelled as follows.
  \<^item> An ethers \<^verbatim>\<open>BigNumber\<close> is an \<open>int\<close>.
  \<^item> A \<^verbatim>\<open>Decimal\<close> (decimal.js, not part of the sources) is a rational number. The
    constructor \<^verbatim>\<open>new Decimal(...)\<close> is exact; \<^verbatim>\<open>add\<close> rounds its result to the
    library's precision, 20 significant digits in its default configuration, with the
    default rounding mode \<^verbatim>\<open>ROUND_HALF_UP\<close> (see \<open>Decimal_add\<close> below).
  \<^item> A thrown JavaScript value is a \<open>thrown\<close>; a function that may throw returns
    \<open>thrown + 'a\<close>. A JavaScript \<^verbatim>\<open>undefined\<close> is \<open>None\<close>.
  \<^item> The two effects of the module, the call of the pool interface's decoder and
    \<^verbatim>\<open>console.warn\<close>, are recorded in order in a list of events returned with the result.
\<close>

type_synonym Decimal = rat

datatype thrown =
    TypeError
  | EthersError string

fun error_code :: "thrown \<Rightarrow> string option" where
  "error_code TypeError = None"
| "error_code (EthersError c) = Some c"

datatype event =
    DecodeCall string string
  | ConsoleWarn string string

text \<open>
  Decoded argument values: the ABI decoder yields a \<^verbatim>\<open>BigNumber\<close> for an integer
  argument and an array of them for an integer array. \<^verbatim>\<open>args.x\<close> of a name that the
  call does not have is \<^verbatim>\<open>undefined\<close>.
\<close>

datatype arg_value =
    BigNumber int
  | BigNumberArray "int list"

record TransactionDescription =
  name :: string
  args :: "string \<Rightarrow> arg_value option"

datatype CurveTransactionType = ADD_LIQUIDITY | REMOVE_LIQUIDITY | EXCHANGE

datatype token_type = add | remove

record CurveTokenWithAmount =
  symbol :: string
  address :: string
  amount :: "Decimal option"
  type :: token_type

record CurveTransaction =
  hash :: string
  pool :: string
  timestamp :: string
  tx_type :: CurveTransactionType
  totalAmount :: "Decimal option"
  tokens :: "CurveTokenWithAmount list"

text \<open>
  The explorer's transaction record (\<^verbatim>\<open>EtherscanTx\<close>, declared outside the sources): all
  its fields are strings. \<^verbatim>\<open>Number(tx.timeStamp)\<close> is not interpreted: the output's
  \<open>timestamp\<close> carries the explorer's string.
\<close>

record EtherscanTx =
  tx_hash :: string
  timeStamp :: string
  txreceipt_status :: string
  isError :: string
  tx_to :: string
  tx_input :: string
  tx_value :: string

text \<open>
  Modelled from the spec: the pool metadata (\<^verbatim>\<open>CurvePoolWithInterface\<close> and
  \<^verbatim>\<open>CurveAssetTypeName\<close> are declared outside the sources). A pool has an address, an
  ordered sequence of coins (symbol, address, decimal precision), an asset-type classification
  that is one of a known set or the distinguished "unknown", and the ABI interface whose
  \<^verbatim>\<open>parseTransaction\<close> decodes calldata and value into a call, or throws.
\<close>

record Coin =
  coin_symbol :: string
  coin_address :: string
  decimals :: nat

datatype CurveAssetTypeName = UNKNOWN | KnownAssetType string

record CurvePoolWithInterface =
  pool_address :: string
  coins :: "Coin list"
  assetTypeName :: CurveAssetTypeName
  interface :: "string \<Rightarrow> string \<Rightarrow> thrown + TransactionDescription"

record ParseTransactionAPI =
  decodedInput :: "TransactionDescription option"
  transaction :: "CurveTransaction option"

section \<open>Library operations used by the module\<close>

text \<open>\<^verbatim>\<open>a ?? b\<close>: the left operand unless it is \<^verbatim>\<open>undefined\<close>.\<close>

fun nullish :: "'a option \<Rightarrow> 'a option \<Rightarrow> 'a option" where
  "nullish None b = b"
| "nullish (Some a) b = Some a"

text \<open>
  \<^verbatim>\<open>new Decimal(ethers.utils.formatUnits(rawAmount, decimals))\<close>: the raw integer shifted
  by \<open>decimals\<close> decimal places, exactly. \<^verbatim>\<open>formatUnits\<close> converts its argument with
  \<^verbatim>\<open>BigNumber.from\<close>, which throws an error of code \<^verbatim>\<open>INVALID_ARGUMENT\<close> on
  \<^verbatim>\<open>undefined\<close> and on an array of \<^verbatim>\<open>BigNumber\<close>s. The decimal precisions are those
  of tokens (\<^verbatim>\<open>Number(coin.decimals)\<close>, a natural number in the range the library accepts).
\<close>

fun formatUnits :: "arg_value option \<Rightarrow> nat \<Rightarrow> thrown + Decimal" where
  "formatUnits (Some (BigNumber n)) d = Inr (of_int n / 10 ^ d)"
| "formatUnits _ d = Inl (EthersError ''INVALID_ARGUMENT'')"

text \<open>
  \<^verbatim>\<open>x.toNumber()\<close>: a \<^verbatim>\<open>BigNumber\<close> of at most 53 bits becomes a number, a larger one
  throws an error of code \<^verbatim>\<open>NUMERIC_FAULT\<close>; \<^verbatim>\<open>undefined\<close> and arrays have no
  such method.
\<close>

fun toNumber :: "arg_value option \<Rightarrow> thrown + int" where
  "toNumber (Some (BigNumber n)) =
     (if \<bar>n\<bar> < 2 ^ 53 then Inr n else Inl (EthersError ''NUMERIC_FAULT''))"
| "toNumber _ = Inl TypeError"

text \<open>\<^verbatim>\<open>pool.coins[n]\<close> for a number \<open>n\<close>: \<^verbatim>\<open>undefined\<close> outside the array.\<close>

definition coin_at :: "Coin list \<Rightarrow> int \<Rightarrow> Coin option" where
  "coin_at cs n = (if 0 \<le> n \<and> nat n < length cs then Some (cs ! nat n) else None)"

text \<open>
  \<^verbatim>\<open>pool.coins[v]\<close> for a decoded value \<open>v\<close> used as a property key: the key is
  \<^verbatim>\<open>String(v)\<close>, the decimal digits of a \<^verbatim>\<open>BigNumber\<close>, the elements joined by commas
  for an array, and \<^verbatim>\<open>"undefined"\<close> for a missing argument.
\<close>

fun coin_at_key :: "Coin list \<Rightarrow> arg_value option \<Rightarrow> Coin option" where
  "coin_at_key cs (Some (BigNumber n)) = coin_at cs n"
| "coin_at_key cs (Some (BigNumberArray [n])) = coin_at cs n"
| "coin_at_key cs _ = None"

text \<open>
  \<^verbatim>\<open>x.add(y)\<close> of decimal.js: the sum, rounded to \<^verbatim>\<open>Decimal.precision\<close> significant
  digits by the library's \<^verbatim>\<open>finalise\<close>, in the library's default configuration
  (precision 20, rounding mode \<^verbatim>\<open>ROUND_HALF_UP\<close>: to the nearest, a tie away from zero).
  \<open>digits10 n\<close> is the number of decimal digits of \<open>n\<close>; \<open>exponent10 x\<close> is the decimal
  exponent \<open>e\<close> of a non-zero \<open>x\<close>, with \<open>10 ^ e \<le> \<bar>x\<bar> < 10 ^ (e + 1)\<close>; \<open>finalise sd x\<close>
  keeps the \<open>sd\<close> leading digits of \<open>x\<close>, from the digit of weight \<open>10 ^ e\<close> on.
\<close>

fun digits10 :: "nat \<Rightarrow> nat" where
  "digits10 n = (if n < 10 then 1 else Suc (digits10 (n div 10)))"

declare digits10.simps [simp del]

definition exponent10 :: "Decimal \<Rightarrow> int" where
  "exponent10 x =
     (if 1 \<le> \<bar>x\<bar> then int (digits10 (nat \<lfloor>\<bar>x\<bar>\<rfloor>)) - 1
      else - int (digits10 (nat (\<lceil>1 / \<bar>x\<bar>\<rceil> - 1))))"

definition round_half_up :: "Decimal \<Rightarrow> int" where
  "round_half_up q = (if q < 0 then - \<lfloor>- q + 1 / 2\<rfloor> else \<lfloor>q + 1 / 2\<rfloor>)"

definition finalise :: "nat \<Rightarrow> Decimal \<Rightarrow> Decimal" where
  "finalise sd x =
     (if x = 0 then 0
      else let s = int sd - 1 - exponent10 x
           in if 0 \<le> s then of_int (round_half_up (x * 10 ^ nat s)) / 10 ^ nat s
              else of_int (round_half_up (x / 10 ^ nat (- s))) * 10 ^ nat (- s))"

definition precision :: nat where
  "precision = 20"

definition Decimal_add :: "Decimal \<Rightarrow> Decimal \<Rightarrow> Decimal" where
  "Decimal_add x y = finalise precision (x + y)"

section \<open>The decoders\<close>

text \<open>
  The callback of \<^verbatim>\<open>rawAmounts.map((rawAmount, i) => ...)\<close>, shared by
  \<^verbatim>\<open>remove_liquidity_imbalance\<close> (legs tagged \<open>remove\<close>) and \<^verbatim>\<open>add_liquidity\<close>
  (legs tagged \<open>add\<close>), run over the array from index \<open>i\<close> with the running
  \<^verbatim>\<open>totalAmount\<close>: a zero entry yields \<^verbatim>\<open>undefined\<close> before the coin is looked at,
  a non-zero entry reads \<^verbatim>\<open>coin.decimals\<close> (a \<^verbatim>\<open>TypeError\<close> when \<^verbatim>\<open>pool.coins[i]\<close>
  is \<^verbatim>\<open>undefined\<close>), adds the converted amount to the total with \<^verbatim>\<open>totalAmount.add\<close>
  and yields the leg.
\<close>

fun map_amounts ::
  "token_type \<Rightarrow> Coin list \<Rightarrow> nat \<Rightarrow> int list \<Rightarrow> Decimal \<Rightarrow>
     thrown + (CurveTokenWithAmount option list \<times> Decimal)" where
  "map_amounts ty cs i [] tot = Inr ([], tot)"
| "map_amounts ty cs i (rawAmount # rest) tot =
     (if rawAmount = 0 then
        (case map_amounts ty cs (Suc i) rest tot of
           Inl e \<Rightarrow> Inl e
         | Inr (ts, tot') \<Rightarrow> Inr (None # ts, tot'))
      else
        (case coin_at cs (int i) of
           None \<Rightarrow> Inl TypeError
         | Some coin \<Rightarrow>
             (case formatUnits (Some (BigNumber rawAmount)) (decimals coin) of
                Inl e \<Rightarrow> Inl e
              | Inr amt \<Rightarrow>
                  (case map_amounts ty cs (Suc i) rest (Decimal_add tot amt) of
                     Inl e \<Rightarrow> Inl e
                   | Inr (ts, tot') \<Rightarrow>
                       Inr (Some \<lparr>symbol = coin_symbol coin, address = coin_address coin,
                                  amount = Some amt, type = ty\<rparr> # ts, tot')))))"

text \<open>\<^verbatim>\<open>lodash.compact\<close> on the callback's results: the \<^verbatim>\<open>undefined\<close> entries are dropped.\<close>

fun compact :: "'a option list \<Rightarrow> 'a list" where
  "compact [] = []"
| "compact (None # xs) = compact xs"
| "compact (Some x # xs) = x # compact xs"

text \<open>
  The whole of \<^verbatim>\<open>totalAmount = new Decimal(0); tokens = lodash.compact(rawAmounts.map(...))\<close>;
  \<^verbatim>\<open>rawAmounts.map\<close> is a \<^verbatim>\<open>TypeError\<close> when \<^verbatim>\<open>rawAmounts\<close> is \<^verbatim>\<open>undefined\<close> or a
  \<^verbatim>\<open>BigNumber\<close>.
\<close>

fun amounts_legs ::
  "token_type \<Rightarrow> Coin list \<Rightarrow> arg_value option \<Rightarrow>
     thrown + (CurveTokenWithAmount list \<times> Decimal)" where
  "amounts_legs ty cs (Some (BigNumberArray rawAmounts)) =
     (case map_amounts ty cs 0 rawAmounts 0 of
        Inl e \<Rightarrow> Inl e
      | Inr (ts, tot) \<Rightarrow> Inr (compact ts, tot))"
| "amounts_legs ty cs _ = Inl TypeError"

text \<open>The record every decoder returns at its end.\<close>

definition assemble ::
  "EtherscanTx \<Rightarrow> CurvePoolWithInterface \<Rightarrow> CurveTransactionType \<Rightarrow> Decimal \<Rightarrow>
     CurveTokenWithAmount list \<Rightarrow> CurveTransaction" where
  "assemble tx p ty tot ts =
     \<lparr>hash = tx_hash tx, pool = pool_address p, timestamp = timeStamp tx, tx_type = ty,
      totalAmount = (if assetTypeName p \<noteq> UNKNOWN then Some tot else None),
      tokens = ts\<rparr>"

definition parseRemoveLiquidity ::
  "nat \<Rightarrow> EtherscanTx \<Rightarrow> CurvePoolWithInterface \<Rightarrow> TransactionDescription \<Rightarrow>
     event list \<times> (thrown + CurveTransaction option)" where
  "parseRemoveLiquidity CURVE_POOL_TOKEN_DECIMALS tx p decoded =
     (if name decoded = ''remove_liquidity_imbalance'' then
        ([], case amounts_legs remove (coins p)
                    (nullish (args decoded ''_amounts'') (args decoded ''amounts'')) of
               Inl e \<Rightarrow> Inl e
             | Inr (ts, tot) \<Rightarrow> Inr (Some (assemble tx p REMOVE_LIQUIDITY tot ts)))
      else if name decoded = ''remove_liquidity_one_coin'' then
        ([], let rawAmount = nullish (args decoded ''_token_amount'')
                               (nullish (args decoded ''token_amount'')
                                  (args decoded ''_burn_amount''));
                 coin = coin_at_key (coins p) (args decoded ''i'')
             in case formatUnits rawAmount CURVE_POOL_TOKEN_DECIMALS of
                  Inl e \<Rightarrow> Inl e
                | Inr tot \<Rightarrow>
                    (case coin of
                       None \<Rightarrow> Inl TypeError
                     | Some c \<Rightarrow>
                         Inr (Some (assemble tx p REMOVE_LIQUIDITY tot
                           [\<lparr>symbol = coin_symbol c, address = coin_address c,
                             amount = None, type = remove\<rparr>]))))
      else if name decoded = ''remove_liquidity'' then
        ([], let rawAmount = nullish (args decoded ''_amount'') (args decoded ''_burn_amount'')
             in case formatUnits rawAmount CURVE_POOL_TOKEN_DECIMALS of
                  Inl e \<Rightarrow> Inl e
                | Inr tot \<Rightarrow>
                    Inr (Some (assemble tx p REMOVE_LIQUIDITY tot
                      (map (\<lambda>c. \<lparr>symbol = coin_symbol c, address = coin_address c,
                                 amount = None, type = remove\<rparr>) (coins p)))))
      else
        ([ConsoleWarn ''[parseRemoveLiquidity] Unknown transaction type: '' (name decoded)],
         Inr None))"

definition parseAddLiquidity ::
  "EtherscanTx \<Rightarrow> CurvePoolWithInterface \<Rightarrow> TransactionDescription \<Rightarrow>
     event list \<times> (thrown + CurveTransaction option)" where
  "parseAddLiquidity tx p decoded =
     (if name decoded = ''add_liquidity'' then
        ([], case amounts_legs add (coins p)
                    (nullish (args decoded ''_amounts'')
                       (nullish (args decoded ''amounts'') (args decoded ''uamounts''))) of
               Inl e \<Rightarrow> Inl e
             | Inr (ts, tot) \<Rightarrow> Inr (Some (assemble tx p ADD_LIQUIDITY tot ts)))
      else
        ([ConsoleWarn ''[parseAddLiquidity] Unknown transaction type: '' (name decoded)],
         Inr None))"

definition parseExchange ::
  "EtherscanTx \<Rightarrow> CurvePoolWithInterface \<Rightarrow> TransactionDescription \<Rightarrow>
     event list \<times> (thrown + CurveTransaction option)" where
  "parseExchange tx p decoded =
     (if name decoded = ''exchange'' then
        ([], case toNumber (args decoded ''i'') of
               Inl e \<Rightarrow> Inl e
             | Inr i \<Rightarrow>
                 (case toNumber (args decoded ''j'') of
                    Inl e \<Rightarrow> Inl e
                  | Inr j \<Rightarrow>
                      (let fromCoin = coin_at (coins p) i;
                           toCoin = coin_at (coins p) j;
                           rawAmount = nullish (args decoded ''dx'') (args decoded ''_dx'')
                       in case fromCoin of
                            None \<Rightarrow> Inl TypeError
                          | Some fc \<Rightarrow>
                              (case formatUnits rawAmount (decimals fc) of
                                 Inl e \<Rightarrow> Inl e
                               | Inr tot \<Rightarrow>
                                   (case toCoin of
                                      None \<Rightarrow> Inl TypeError
                                    | Some tc \<Rightarrow>
                                        Inr (Some (assemble tx p EXCHANGE tot
                                          [\<lparr>symbol = coin_symbol fc, address = coin_address fc,
                                            amount = Some tot, type = add\<rparr>,
                                           \<lparr>symbol = coin_symbol tc, address = coin_address tc,
                                            amount = None, type = remove\<rparr>])))))))
      else if name decoded = ''exchange_underlying'' then ([], Inr None)
      else
        ([ConsoleWarn ''[parseExchange] Unknown transaction type: '' (name decoded)],
         Inr None))"

section \<open>The classifier\<close>

definition not_applicable :: ParseTransactionAPI where
  "not_applicable = \<lparr>decodedInput = None, transaction = None\<rparr>"

definition parseTransaction ::
  "nat \<Rightarrow> CurvePoolWithInterface \<Rightarrow> EtherscanTx \<Rightarrow>
     event list \<times> (thrown + ParseTransactionAPI)" where
  "parseTransaction CURVE_POOL_TOKEN_DECIMALS p tx =
     (if txreceipt_status tx \<noteq> ''1'' \<or> isError tx = ''1'' then ([], Inr not_applicable)
      else if tx_to tx = [] then ([], Inr not_applicable)
      else
        (case interface p (tx_input tx) (tx_value tx) of
           Inl e \<Rightarrow>
             ([DecodeCall (tx_input tx) (tx_value tx)],
              if error_code e = Some ''INVALID_ARGUMENT'' then Inr not_applicable else Inl e)
         | Inr decoded \<Rightarrow>
             (let (evs, r) =
                    (if prefix ''remove_liquidity'' (name decoded) then
                       parseRemoveLiquidity CURVE_POOL_TOKEN_DECIMALS tx p decoded
                     else if prefix ''add_liquidity'' (name decoded) then
                       parseAddLiquidity tx p decoded
                     else if prefix ''exchange'' (name decoded) then
                       parseExchange tx p decoded
                     else ([], Inr None))
              in (DecodeCall (tx_input tx) (tx_value tx) # evs,
                  case r of
                    Inl e \<Rightarrow> Inl e
                  | Inr t \<Rightarrow> Inr \<lparr>decodedInput = Some decoded, transaction = t\<rparr>))))"

section \<open>Notions of the specification\<close>

text \<open>
  The specification speaks of the indices \<open>i\<close> with \<open>A[i]\<close> non-zero, of the converted
  entry \<open>A[i] / 10 ^ decimals[i]\<close>, of the leg of such an index, and of the sum of the leg
  amounts that are present. These definitions follow its words; the theorems compare them
  with what the decoders compute.
\<close>

definition nonzero_indices :: "int list \<Rightarrow> nat list" where
  "nonzero_indices A = filter (\<lambda>i. A ! i \<noteq> 0) [0..<length A]"

definition converted :: "Coin list \<Rightarrow> int list \<Rightarrow> nat \<Rightarrow> Decimal" where
  "converted cs A i = of_int (A ! i) / 10 ^ decimals (cs ! i)"

definition amount_leg ::
  "token_type \<Rightarrow> Coin list \<Rightarrow> int list \<Rightarrow> nat \<Rightarrow> CurveTokenWithAmount" where
  "amount_leg ty cs A i =
     \<lparr>symbol = coin_symbol (cs ! i), address = coin_address (cs ! i),
      amount = Some (converted cs A i), type = ty\<rparr>"

definition sum_present :: "CurveTokenWithAmount list \<Rightarrow> Decimal" where
  "sum_present ts = sum_list (List.map_filter amount ts)"

text \<open>
  The sum of a sequence as the decimal arithmetic of the program accumulates it: from 0,
  in order, each partial sum rounded to the precision. \<open>sums_exact s xs\<close> says that no
  partial sum \<open>s + x\<^sub>1 + \<dots> + x\<^sub>k\<close> is changed by that rounding, that is, each of them has at
  most 20 significant digits.
\<close>

definition rounded_sum :: "Decimal list \<Rightarrow> Decimal" where
  "rounded_sum xs = foldl Decimal_add 0 xs"

fun sums_exact :: "Decimal \<Rightarrow> Decimal list \<Rightarrow> bool" where
  "sums_exact s [] = True"
| "sums_exact s (x # xs) = (finalise precision (s + x) = s + x \<and> sums_exact (s + x) xs)"

text \<open>The classified transaction of a decoder's result, if it produced one.\<close>

definition produced ::
  "event list \<times> (thrown + CurveTransaction option) \<Rightarrow> CurveTransaction option" where
  "produced r = (case snd r of Inl e \<Rightarrow> None | Inr t \<Rightarrow> t)"

section \<open>Concrete inputs\<close>

text \<open>
  A three-coin pool in the shape of Curve's 3pool, one transaction to it, and one decoded
  call of each kind. The theorems below are instantiated at these inputs.
\<close>

definition example_coins :: "Coin list" where
  "example_coins =
     [\<lparr>coin_symbol = ''DAI'', coin_address = ''0x6b17'', decimals = 18\<rparr>,
      \<lparr>coin_symbol = ''USDC'', coin_address = ''0xa0b8'', decimals = 6\<rparr>,
      \<lparr>coin_symbol = ''USDT'', coin_address = ''0xdac1'', decimals = 6\<rparr>]"

definition example_exchange :: TransactionDescription where
  "example_exchange =
     \<lparr>name = ''exchange'',
      args = [''i'' \<mapsto> BigNumber 0, ''j'' \<mapsto> BigNumber 1,
              ''dx'' \<mapsto> BigNumber 2500000000000000000, ''min_dy'' \<mapsto> BigNumber 2400000]\<rparr>"


definition negative_exchange :: TransactionDescription where
  "negative_exchange =
     \<lparr>name = ''exchange'',
      args = [''i'' \<mapsto> BigNumber (- 1), ''j'' \<mapsto> BigNumber 1,
              ''dx'' \<mapsto> BigNumber 2500000000000000000, ''min_dy'' \<mapsto> BigNumber 2400000]\<rparr>"

definition example_add :: TransactionDescription where
  "example_add =
     \<lparr>name = ''add_liquidity'',
      args = [''amounts'' \<mapsto> BigNumberArray [2500000000000000000, 0, 1500000],
              ''min_mint_amount'' \<mapsto> BigNumber 0]\<rparr>"

definition example_imbalance :: TransactionDescription where
  "example_imbalance =
     \<lparr>name = ''remove_liquidity_imbalance'',
      args = [''_amounts'' \<mapsto> BigNumberArray [2500000000000000000, 0, 1500000],
              ''_max_burn_amount'' \<mapsto> BigNumber 5000000000000000000]\<rparr>"

definition example_one_coin :: TransactionDescription where
  "example_one_coin =
     \<lparr>name = ''remove_liquidity_one_coin'',
      args = [''_token_amount'' \<mapsto> BigNumber 5000000000000000000, ''i'' \<mapsto> BigNumber 1,
              ''_min_amount'' \<mapsto> BigNumber 0]\<rparr>"

definition example_remove :: TransactionDescription where
  "example_remove =
     \<lparr>name = ''remove_liquidity'',
      args = [''_amount'' \<mapsto> BigNumber 5000000000000000000,
              ''min_amounts'' \<mapsto> BigNumberArray [0, 0, 0]]\<rparr>"

definition long_add :: TransactionDescription where
  "long_add =
     \<lparr>name = ''add_liquidity'',
      args = [''amounts'' \<mapsto> BigNumberArray [1234567890123456789012, 0, 0],
              ''min_mint_amount'' \<mapsto> BigNumber 0]\<rparr>"

definition long_imbalance :: TransactionDescription where
  "long_imbalance =
     \<lparr>name = ''remove_liquidity_imbalance'',
      args = [''_amounts'' \<mapsto> BigNumberArray [1523482910384756102, 250000000123, 0],
              ''_max_burn_amount'' \<mapsto> BigNumber 300000000000000000000000]\<rparr>"

definition example_interface :: "string \<Rightarrow> string \<Rightarrow> thrown + TransactionDescription" where
  "example_interface data val =
     (if data = ''0x3df02124'' then Inr example_exchange
      else if data = ''0x'' then Inl TypeError
      else Inl (EthersError ''INVALID_ARGUMENT''))"

definition example_pool :: CurvePoolWithInterface where
  "example_pool =
     \<lparr>pool_address = ''0xbebc'', coins = example_coins,
      assetTypeName = KnownAssetType ''usd'', interface = example_interface\<rparr>"

definition unknown_pool :: CurvePoolWithInterface where
  "unknown_pool = example_pool\<lparr>assetTypeName := UNKNOWN\<rparr>"

definition example_tx :: EtherscanTx where
  "example_tx =
     \<lparr>tx_hash = ''0x5e1f'', timeStamp = ''1654041600'', txreceipt_status = ''1'',
      isError = ''0'', tx_to = ''0xbebc'', tx_input = ''0x3df02124'', tx_value = ''0''\<rparr>"

definition failed_tx :: EtherscanTx where
  "failed_tx = example_tx\<lparr>isError := ''1''\<rparr>"

definition unmatched_tx :: EtherscanTx where
  "unmatched_tx = example_tx\<lparr>tx_input := ''0xa9059cbb''\<rparr>"


definition empty_tx :: EtherscanTx where
  "empty_tx = example_tx\<lparr>tx_input := ''0x''\<rparr>"

definition one_coin_out_of_range :: TransactionDescription where
  "one_coin_out_of_range =
     \<lparr>name = ''remove_liquidity_one_coin'',
      args = [''_token_amount'' \<mapsto> BigNumber 5000000000000000000, ''i'' \<mapsto> BigNumber 3,
              ''_min_amount'' \<mapsto> BigNumber 0]\<rparr>"

section \<open>Lemmas on the parts of the decoders\<close>

lemma floor_numeral_div:
  "\<lfloor>(numeral a :: rat) / numeral b\<rfloor> = numeral a div numeral b"
  "\<lfloor>- (numeral a :: rat) / numeral b\<rfloor> = - numeral a div numeral b"
  using floor_divide_of_int_eq [of "numeral a" "numeral b", where ?'a = rat]
    floor_divide_of_int_eq [of "- numeral a" "numeral b", where ?'a = rat]
  by simp_all

lemma ceiling_numeral_div:
  "\<lceil>(numeral a :: rat) / numeral b\<rceil> = - (- numeral a div numeral b)"
  unfolding ceiling_def using floor_numeral_div(2) [of a b] by simp

lemma foldl_Decimal_add_exact:
  "sums_exact s xs \<Longrightarrow> foldl Decimal_add s xs = s + sum_list xs"
  by (induction xs arbitrary: s) (simp_all add: Decimal_add_def add.assoc)

lemma rounded_sum_exact: "sums_exact 0 xs \<Longrightarrow> rounded_sum xs = sum_list xs"
  using foldl_Decimal_add_exact [of 0 xs] by (simp add: rounded_sum_def)

lemma map_amounts_enumerate:
  "\<forall>(k, a) \<in> set (enumerate i xs). a \<noteq> 0 \<longrightarrow> k < length cs \<Longrightarrow>
   map_amounts ty cs i xs tot =
     Inr (map (\<lambda>(k, a). if a = 0 then None
                 else Some \<lparr>symbol = coin_symbol (cs ! k), address = coin_address (cs ! k),
                            amount = Some (of_int a / 10 ^ decimals (cs ! k)), type = ty\<rparr>)
            (enumerate i xs),
          foldl Decimal_add tot (map (\<lambda>(k, a). of_int a / 10 ^ decimals (cs ! k))
                                  (filter (\<lambda>(k, a). a \<noteq> 0) (enumerate i xs))))"
proof (induction xs arbitrary: i tot)
  case Nil
  then show ?case by simp
next
  case (Cons x xs)
  from Cons.prems have rest: "\<forall>(k, a) \<in> set (enumerate (Suc i) xs). a \<noteq> 0 \<longrightarrow> k < length cs"
    by simp
  show ?case
  proof (cases "x = 0")
    case True
    then show ?thesis using Cons.IH [OF rest] by simp
  next
    case False
    with Cons.prems have "i < length cs" by simp
    then show ?thesis using False Cons.IH [OF rest] by (simp add: coin_at_def)
  qed
qed

lemma compact_map_if:
  "compact (map (\<lambda>(k, a). if a = 0 then None else Some (f k a)) ys) =
   map (\<lambda>(k, a). f k a) (filter (\<lambda>(k, a). a \<noteq> (0::int)) ys)"
  by (induction ys) auto

lemma enumerate_nth: "enumerate 0 A = map (\<lambda>i. (i, A ! i)) [0..<length A]"
proof (rule nth_equalityI)
  show "length (enumerate 0 A) = length (map (\<lambda>i. (i, A ! i)) [0..<length A])" by simp
next
  fix i assume "i < length (enumerate 0 A)"
  then show "enumerate 0 A ! i = map (\<lambda>i. (i, A ! i)) [0..<length A] ! i"
    by (simp add: nth_enumerate_eq)
qed

lemma filter_enumerate:
  "filter (\<lambda>(k, a). a \<noteq> (0::int)) (enumerate 0 A) = map (\<lambda>i. (i, A ! i)) (nonzero_indices A)"
  by (simp add: enumerate_nth nonzero_indices_def filter_map comp_def)

lemma amounts_legs_in_range:
  assumes "\<forall>i<length A. A ! i \<noteq> 0 \<longrightarrow> i < length cs"
  shows "amounts_legs ty cs (Some (BigNumberArray A)) =
     Inr (map (amount_leg ty cs A) (nonzero_indices A),
          rounded_sum (map (converted cs A) (nonzero_indices A)))"
proof -
  have "\<forall>(k, a) \<in> set (enumerate 0 A). a \<noteq> 0 \<longrightarrow> k < length cs"
    using assms by (auto simp: in_set_enumerate_eq)
  from map_amounts_enumerate [OF this, of ty 0]
  show ?thesis
    by (simp add: compact_map_if filter_enumerate comp_def amount_leg_def [abs_def]
          converted_def [abs_def] rounded_sum_def)
qed

lemma map_amounts_sound:
  "map_amounts ty cs i xs tot = Inr (ts, tot') \<Longrightarrow>
   tot' = foldl Decimal_add tot (List.map_filter amount (compact ts)) \<and>
   (\<forall>l \<in> set (compact ts). \<exists>a. amount l = Some a \<and> a \<noteq> 0)"
proof (induction xs arbitrary: i tot ts tot')
  case Nil
  then show ?case by (simp add: List.map_filter_simps)
next
  case (Cons x xs)
  show ?case
  proof (cases "x = 0")
    case True
    with Cons.prems obtain ts0 where
      "map_amounts ty cs (Suc i) xs tot = Inr (ts0, tot')" "ts = None # ts0"
      by (auto split: sum.splits)
    with Cons.IH show ?thesis by fastforce
  next
    case False
    with Cons.prems obtain c ts0 where c: "coin_at cs (int i) = Some c"
      and r: "map_amounts ty cs (Suc i) xs (Decimal_add tot (of_int x / 10 ^ decimals c))
                = Inr (ts0, tot')"
      and ts: "ts = Some \<lparr>symbol = coin_symbol c, address = coin_address c,
                 amount = Some (of_int x / 10 ^ decimals c), type = ty\<rparr> # ts0"
      by (auto split: sum.splits option.splits)
    from Cons.IH [OF r] False ts show ?thesis
      by (simp add: List.map_filter_simps)
  qed
qed

lemma amounts_legs_sound:
  assumes "amounts_legs ty cs v = Inr (ls, tot)"
  shows "tot = rounded_sum (List.map_filter amount ls) \<and>
         (\<forall>l \<in> set ls. \<exists>a. amount l = Some a \<and> a \<noteq> 0)"
proof -
  from assms obtain A where v: "v = Some (BigNumberArray A)"
    by (cases "(ty, cs, v)" rule: amounts_legs.cases) auto
  with assms obtain ts where "map_amounts ty cs 0 A 0 = Inr (ts, tot)" "ls = compact ts"
    by (auto split: sum.splits)
  with map_amounts_sound [of ty cs 0 A 0 ts tot] show ?thesis by (simp add: rounded_sum_def)
qed

lemma formatUnits_Inr: "formatUnits v d = Inr x \<longleftrightarrow> (\<exists>n. v = Some (BigNumber n) \<and> x = of_int n / 10 ^ d)"
  by (cases "(v, d)" rule: formatUnits.cases) auto

lemma parseExchange_produced:
  assumes "parseExchange tx p d = (evs, Inr (Some t))"
  shows "\<exists>dx (fc::Coin) (tc::Coin). nullish (args d ''dx'') (args d ''_dx'') = Some (BigNumber dx)
          \<and> t = assemble tx p EXCHANGE (of_int dx / 10 ^ decimals fc)
                 [\<lparr>symbol = coin_symbol fc, address = coin_address fc,
                   amount = Some (of_int dx / 10 ^ decimals fc), type = add\<rparr>,
                  \<lparr>symbol = coin_symbol tc, address = coin_address tc,
                   amount = None, type = remove\<rparr>]"
proof -
  from assms have n: "name d = ''exchange''"
    by (auto simp: parseExchange_def split: if_splits)
  from assms n obtain i j where ij: "toNumber (args d ''i'') = Inr i" "toNumber (args d ''j'') = Inr j"
    by (auto simp: parseExchange_def split: sum.splits)
  from assms n ij obtain fc where fc: "coin_at (coins p) i = Some fc"
    by (auto simp: parseExchange_def Let_def split: option.splits)
  from assms n ij fc obtain x where x: "formatUnits (nullish (args d ''dx'') (args d ''_dx'')) (decimals fc) = Inr x"
    by (auto simp: parseExchange_def Let_def split: sum.splits)
  from assms n ij fc x obtain tc where tc: "coin_at (coins p) j = Some tc"
    by (auto simp: parseExchange_def Let_def split: option.splits)
  from x obtain dx where dx: "nullish (args d ''dx'') (args d ''_dx'') = Some (BigNumber dx)"
    "x = of_int dx / 10 ^ decimals fc" by (auto simp: formatUnits_Inr)
  from assms n ij fc x tc dx have "t = assemble tx p EXCHANGE (of_int dx / 10 ^ decimals fc)
                 [\<lparr>symbol = coin_symbol fc, address = coin_address fc,
                   amount = Some (of_int dx / 10 ^ decimals fc), type = add\<rparr>,
                  \<lparr>symbol = coin_symbol tc, address = coin_address tc,
                   amount = None, type = remove\<rparr>]"
    by (simp add: parseExchange_def)
  with dx(1) show ?thesis by blast
qed
lemma parseAddLiquidity_produced:
  assumes "parseAddLiquidity tx p d = (evs, Inr (Some t))"
  shows "\<exists>ls tot. amounts_legs add (coins p)
            (nullish (args d ''_amounts'') (nullish (args d ''amounts'') (args d ''uamounts'')))
            = Inr (ls, tot) \<and> t = assemble tx p ADD_LIQUIDITY tot ls"
  using assms by (auto simp: parseAddLiquidity_def split: if_splits sum.splits)

lemma parseRemoveLiquidity_imbalance_produced:
  assumes "parseRemoveLiquidity lpd tx p d = (evs, Inr (Some t))"
    and "name d = ''remove_liquidity_imbalance''"
  shows "\<exists>ls tot. amounts_legs remove (coins p)
            (nullish (args d ''_amounts'') (args d ''amounts'')) = Inr (ls, tot)
          \<and> t = assemble tx p REMOVE_LIQUIDITY tot ls"
  using assms by (auto simp: parseRemoveLiquidity_def split: sum.splits)



lemma produced_eq:
  assumes "produced r \<noteq> None" and "fst r = []"
  shows "r = ([], Inr (Some (the (produced r))))"
  using assms by (cases r) (auto simp: produced_def split: sum.splits)

section \<open>The vector calls: add_liquidity and remove_liquidity_imbalance\<close>

text \<open>
  C1, as amended. For an \<^verbatim>\<open>add_liquidity\<close> call whose raw amounts vector (under the
  first alias present) is \<open>A\<close>, where every index with a non-zero entry is an index of a pool
  coin (in particular when \<open>A\<close> has one entry per pool coin), the output has a leg exactly
  for each index \<open>i\<close> with \<open>A[i]\<close> non-zero, in index order, tagged \<open>add\<close>, with amount
  \<open>A[i] / 10 ^ decimals[i]\<close>. The computed total is the sum of those converted entries as
  the decimal arithmetic accumulates it: from 0, in index order, each partial sum rounded
  to 20 significant digits (published unless the pool's asset type is unknown). It is the
  exact sum whenever no partial sum has more than 20 significant digits. The same holds
  for \<^verbatim>\<open>remove_liquidity_imbalance\<close> with legs tagged \<open>remove\<close>.
\<close>

theorem vector_call_legs_and_total:
  assumes "\<forall>i<length A. A ! i \<noteq> 0 \<longrightarrow> i < length (coins p)"
  shows "(name d = ''add_liquidity'' \<and>
          nullish (args d ''_amounts'') (nullish (args d ''amounts'') (args d ''uamounts''))
            = Some (BigNumberArray A) \<longrightarrow>
          parseAddLiquidity tx p d =
            ([], Inr (Some
               \<lparr>hash = tx_hash tx, pool = pool_address p, timestamp = timeStamp tx,
                tx_type = ADD_LIQUIDITY,
                totalAmount = (if assetTypeName p \<noteq> UNKNOWN
                   then Some (rounded_sum (map (converted (coins p) A) (nonzero_indices A)))
                   else None),
                tokens = map (amount_leg add (coins p) A) (nonzero_indices A)\<rparr>)))
       \<and> (name d' = ''remove_liquidity_imbalance'' \<and>
          nullish (args d' ''_amounts'') (args d' ''amounts'') = Some (BigNumberArray A) \<longrightarrow>
          parseRemoveLiquidity lpd tx p d' =
            ([], Inr (Some
               \<lparr>hash = tx_hash tx, pool = pool_address p, timestamp = timeStamp tx,
                tx_type = REMOVE_LIQUIDITY,
                totalAmount = (if assetTypeName p \<noteq> UNKNOWN
                   then Some (rounded_sum (map (converted (coins p) A) (nonzero_indices A)))
                   else None),
                tokens = map (amount_leg remove (coins p) A) (nonzero_indices A)\<rparr>)))
       \<and> (sums_exact 0 (map (converted (coins p) A) (nonzero_indices A)) \<longrightarrow>
            rounded_sum (map (converted (coins p) A) (nonzero_indices A))
              = sum_list (map (converted (coins p) A) (nonzero_indices A)))"
  using amounts_legs_in_range [OF assms] rounded_sum_exact
  by (simp add: parseAddLiquidity_def parseRemoveLiquidity_def assemble_def)

text \<open>
  At the vector \<open>[2.5 DAI, 0, 1.5 USDT]\<close> in raw units: two legs, for indices 0 and 2, and
  the total 4, which is the exact sum.
\<close>

theorem vector_call_legs_and_total_witness:
  "parseAddLiquidity example_tx example_pool example_add =
     ([], Inr (Some
        \<lparr>hash = ''0x5e1f'', pool = ''0xbebc'', timestamp = ''1654041600'',
         tx_type = ADD_LIQUIDITY, totalAmount = Some 4,
         tokens = [\<lparr>symbol = ''DAI'', address = ''0x6b17'', amount = Some (5 / 2), type = add\<rparr>,
                   \<lparr>symbol = ''USDT'', address = ''0xdac1'', amount = Some (3 / 2), type = add\<rparr>]\<rparr>))
   \<and> parseRemoveLiquidity 18 example_tx example_pool example_imbalance =
     ([], Inr (Some
        \<lparr>hash = ''0x5e1f'', pool = ''0xbebc'', timestamp = ''1654041600'',
         tx_type = REMOVE_LIQUIDITY, totalAmount = Some 4,
         tokens = [\<lparr>symbol = ''DAI'', address = ''0x6b17'', amount = Some (5 / 2), type = remove\<rparr>,
                   \<lparr>symbol = ''USDT'', address = ''0xdac1'', amount = Some (3 / 2), type = remove\<rparr>]\<rparr>))
   \<and> sums_exact 0 [5 / 2, 3 / 2]
   \<and> rounded_sum [5 / 2, 3 / 2] = sum_list [5 / 2, 3 / 2]"
proof -
  have idx: "nonzero_indices [2500000000000000000, 0, 1500000] = [0, 2]"
    by (simp add: nonzero_indices_def upt_rec)
  have h: "\<forall>i<length [2500000000000000000, 0, 1500000 :: int].
             [2500000000000000000, 0, 1500000 :: int] ! i \<noteq> 0 \<longrightarrow> i < length (coins example_pool)"
    by (simp add: example_coins_def example_interface_def example_pool_def)
  have ex: "sums_exact 0 [5 / 2, 3 / 2]"
    by (simp add: precision_def finalise_def exponent10_def round_half_up_def digits10.simps
        Let_def floor_numeral_div ceiling_numeral_div)
  have rs: "rounded_sum [5 / 2, 3 / 2] = 4"
    by (simp add: rounded_sum_def Decimal_add_def precision_def finalise_def exponent10_def
        round_half_up_def digits10.simps Let_def floor_numeral_div ceiling_numeral_div)
  then have rs': "rounded_sum [5 / 2, 3 / 2] = sum_list [5 / 2, 3 / 2]"
    by simp
  from vector_call_legs_and_total [OF h, of example_add example_tx example_imbalance 18]
  have "parseAddLiquidity example_tx example_pool example_add =
     ([], Inr (Some
        \<lparr>hash = ''0x5e1f'', pool = ''0xbebc'', timestamp = ''1654041600'',
         tx_type = ADD_LIQUIDITY, totalAmount = Some 4,
         tokens = [\<lparr>symbol = ''DAI'', address = ''0x6b17'', amount = Some (5 / 2), type = add\<rparr>,
                   \<lparr>symbol = ''USDT'', address = ''0xdac1'', amount = Some (3 / 2), type = add\<rparr>]\<rparr>))
   \<and> parseRemoveLiquidity 18 example_tx example_pool example_imbalance =
     ([], Inr (Some
        \<lparr>hash = ''0x5e1f'', pool = ''0xbebc'', timestamp = ''1654041600'',
         tx_type = REMOVE_LIQUIDITY, totalAmount = Some 4,
         tokens = [\<lparr>symbol = ''DAI'', address = ''0x6b17'', amount = Some (5 / 2), type = remove\<rparr>,
                   \<lparr>symbol = ''USDT'', address = ''0xdac1'', amount = Some (3 / 2), type = remove\<rparr>]\<rparr>))"
    by (simp add: idx rs example_coins_def example_interface_def example_pool_def
        example_tx_def example_add_def example_imbalance_def converted_def amount_leg_def)
  with ex rs' show ?thesis by blast
qed

text \<open>
  The claim as stated fails at a deposit of 1234.567890123456789012 DAI, an amount of 22
  significant digits: the leg has that amount, and the total is 1234.567890123456789.
\<close>

theorem vector_call_legs_and_total_counterexample:
  "parseAddLiquidity example_tx example_pool long_add =
     ([], Inr (Some
        \<lparr>hash = ''0x5e1f'', pool = ''0xbebc'', timestamp = ''1654041600'',
         tx_type = ADD_LIQUIDITY,
         totalAmount = Some (1234567890123456789 / 10 ^ 15),
         tokens = [\<lparr>symbol = ''DAI'', address = ''0x6b17'',
                    amount = Some (1234567890123456789012 / 10 ^ 18), type = add\<rparr>]\<rparr>))
   \<and> nonzero_indices [1234567890123456789012, 0, 0] = [0]
   \<and> sum_list (map (converted (coins example_pool) [1234567890123456789012, 0, 0])
        (nonzero_indices [1234567890123456789012, 0, 0]))
       = 1234567890123456789012 / 10 ^ 18
   \<and> (1234567890123456789 / 10 ^ 15 :: Decimal) \<noteq> 1234567890123456789012 / 10 ^ 18"
proof -
  have idx: "nonzero_indices [1234567890123456789012, 0, 0] = [0]"
    by (simp add: nonzero_indices_def upt_rec)
  show ?thesis
    by (simp add: idx parseAddLiquidity_def assemble_def converted_def long_add_def coin_at_def
        example_coins_def example_interface_def example_pool_def example_tx_def
        Decimal_add_def precision_def finalise_def exponent10_def round_half_up_def
        digits10.simps Let_def floor_numeral_div ceiling_numeral_div)
qed

section \<open>exchange\<close>

text \<open>
  C2. For an \<^verbatim>\<open>exchange\<close> call with source index \<open>i\<close> and destination index \<open>j\<close>, both
  indices of pool coins, and raw input amount \<open>dx\<close> (under the alias \<^verbatim>\<open>dx\<close> or
  \<^verbatim>\<open>_dx\<close>), the output has exactly two legs: coin \<open>i\<close> tagged \<open>add\<close> with amount
  \<open>dx / 10 ^ decimals[i]\<close>, and coin \<open>j\<close> tagged \<open>remove\<close> with no amount; the computed total
  is \<open>dx / 10 ^ decimals[i]\<close> (published unless the pool's asset type is unknown). A
  JavaScript array has fewer than \<open>2 ^ 32\<close> elements.
\<close>

theorem exchange_two_legs:
  assumes "name decoded = ''exchange''"
    and "args decoded ''i'' = Some (BigNumber i)"
    and "args decoded ''j'' = Some (BigNumber j)"
    and "nullish (args decoded ''dx'') (args decoded ''_dx'') = Some (BigNumber dx)"
    and "0 \<le> i" "nat i < length (coins p)" "0 \<le> j" "nat j < length (coins p)"
    and "length (coins p) < 2 ^ 32"
  shows "parseExchange tx p decoded =
     ([], Inr (Some
        \<lparr>hash = tx_hash tx, pool = pool_address p, timestamp = timeStamp tx, tx_type = EXCHANGE,
         totalAmount = (if assetTypeName p \<noteq> UNKNOWN
                        then Some (of_int dx / 10 ^ decimals (coins p ! nat i)) else None),
         tokens = [\<lparr>symbol = coin_symbol (coins p ! nat i),
                    address = coin_address (coins p ! nat i),
                    amount = Some (of_int dx / 10 ^ decimals (coins p ! nat i)), type = add\<rparr>,
                   \<lparr>symbol = coin_symbol (coins p ! nat j),
                    address = coin_address (coins p ! nat j),
                    amount = None, type = remove\<rparr>]\<rparr>))"
proof -
  have "nat i < 4294967296" "nat j < 4294967296" using assms(6,8,9) by simp_all
  with assms(5,7) have "\<bar>i\<bar> < 2 ^ 53" "\<bar>j\<bar> < 2 ^ 53" by simp_all
  then show ?thesis using assms
    by (simp add: parseExchange_def coin_at_def assemble_def)
qed

text \<open>Exchanging 2.5 DAI (coin 0) for USDC (coin 1).\<close>

theorem exchange_two_legs_witness:
  "parseExchange example_tx example_pool example_exchange =
     ([], Inr (Some
        \<lparr>hash = ''0x5e1f'', pool = ''0xbebc'', timestamp = ''1654041600'', tx_type = EXCHANGE,
         totalAmount = Some (5 / 2),
         tokens = [\<lparr>symbol = ''DAI'', address = ''0x6b17'', amount = Some (5 / 2), type = add\<rparr>,
                   \<lparr>symbol = ''USDC'', address = ''0xa0b8'', amount = None, type = remove\<rparr>]\<rparr>))"
  using exchange_two_legs [of example_exchange 0 1 2500000000000000000 example_pool example_tx]
  by (simp add: example_coins_def example_interface_def example_pool_def example_tx_def example_exchange_def)

section \<open>The burn calls: remove_liquidity_one_coin and remove_liquidity\<close>

text \<open>
  C3. For a \<^verbatim>\<open>remove_liquidity_one_coin\<close> call with raw burn amount \<open>burn\<close> (under
  the first present of \<^verbatim>\<open>_token_amount\<close>, \<^verbatim>\<open>token_amount\<close>, \<^verbatim>\<open>_burn_amount\<close>) and
  coin index \<open>j\<close>, an index of a pool coin, the output has exactly one leg, for coin \<open>j\<close>,
  tagged \<open>remove\<close>, with no amount, and the computed total is \<open>burn\<close> divided by 10 to the
  LP-token precision constant, whatever the precision of coin \<open>j\<close> (published unless the
  pool's asset type is unknown).
\<close>

theorem one_coin_single_leg:
  assumes "name decoded = ''remove_liquidity_one_coin''"
    and "nullish (args decoded ''_token_amount'')
           (nullish (args decoded ''token_amount'') (args decoded ''_burn_amount''))
         = Some (BigNumber burn)"
    and "args decoded ''i'' = Some (BigNumber j)"
    and "0 \<le> j" "nat j < length (coins p)"
  shows "parseRemoveLiquidity CURVE_POOL_TOKEN_DECIMALS tx p decoded =
     ([], Inr (Some
        \<lparr>hash = tx_hash tx, pool = pool_address p, timestamp = timeStamp tx,
         tx_type = REMOVE_LIQUIDITY,
         totalAmount = (if assetTypeName p \<noteq> UNKNOWN
                        then Some (of_int burn / 10 ^ CURVE_POOL_TOKEN_DECIMALS) else None),
         tokens = [\<lparr>symbol = coin_symbol (coins p ! nat j),
                    address = coin_address (coins p ! nat j),
                    amount = None, type = remove\<rparr>]\<rparr>))"
  using assms by (simp add: parseRemoveLiquidity_def coin_at_def assemble_def)

text \<open>
  Burning 5 LP tokens (precision 18) for USDC (coin 1, precision 6): the total is 5, not
  \<open>5 * 10 ^ 12\<close>.
\<close>

theorem one_coin_single_leg_witness:
  "parseRemoveLiquidity 18 example_tx example_pool example_one_coin =
     ([], Inr (Some
        \<lparr>hash = ''0x5e1f'', pool = ''0xbebc'', timestamp = ''1654041600'',
         tx_type = REMOVE_LIQUIDITY, totalAmount = Some 5,
         tokens = [\<lparr>symbol = ''USDC'', address = ''0xa0b8'', amount = None, type = remove\<rparr>]\<rparr>))"
  using one_coin_single_leg [of example_one_coin 5000000000000000000 1 example_pool 18 example_tx]
  by (simp add: example_coins_def example_interface_def example_pool_def example_tx_def example_one_coin_def)

text \<open>
  C4. For a balanced \<^verbatim>\<open>remove_liquidity\<close> call with raw burn amount \<open>burn\<close> (under the
  alias \<^verbatim>\<open>_amount\<close> or \<^verbatim>\<open>_burn_amount\<close>) over a pool of \<open>N\<close> coins, the output has
  exactly \<open>N\<close> legs, the image of the pool's coin sequence, so one per pool coin in the
  pool's order, all tagged \<open>remove\<close> with no amount, and the computed total is \<open>burn\<close>
  divided by 10 to the LP-token precision constant (published unless the pool's asset type
  is unknown).
\<close>

theorem balanced_remove_one_leg_per_coin:
  assumes "name decoded = ''remove_liquidity''"
    and "nullish (args decoded ''_amount'') (args decoded ''_burn_amount'')
         = Some (BigNumber burn)"
  shows "parseRemoveLiquidity CURVE_POOL_TOKEN_DECIMALS tx p decoded =
     ([], Inr (Some
        \<lparr>hash = tx_hash tx, pool = pool_address p, timestamp = timeStamp tx,
         tx_type = REMOVE_LIQUIDITY,
         totalAmount = (if assetTypeName p \<noteq> UNKNOWN
                        then Some (of_int burn / 10 ^ CURVE_POOL_TOKEN_DECIMALS) else None),
         tokens = map (\<lambda>c. \<lparr>symbol = coin_symbol c, address = coin_address c,
                             amount = None, type = remove\<rparr>) (coins p)\<rparr>))"
  using assms by (simp add: parseRemoveLiquidity_def assemble_def)

text \<open>Burning 5 LP tokens against the three-coin pool: three legs.\<close>

theorem balanced_remove_one_leg_per_coin_witness:
  "parseRemoveLiquidity 18 example_tx example_pool example_remove =
     ([], Inr (Some
        \<lparr>hash = ''0x5e1f'', pool = ''0xbebc'', timestamp = ''1654041600'',
         tx_type = REMOVE_LIQUIDITY, totalAmount = Some 5,
         tokens = [\<lparr>symbol = ''DAI'', address = ''0x6b17'', amount = None, type = remove\<rparr>,
                   \<lparr>symbol = ''USDC'', address = ''0xa0b8'', amount = None, type = remove\<rparr>,
                   \<lparr>symbol = ''USDT'', address = ''0xdac1'', amount = None, type = remove\<rparr>]\<rparr>))"
  using balanced_remove_one_leg_per_coin
    [of example_remove 5000000000000000000 18 example_tx example_pool]
  by (simp add: example_coins_def example_interface_def example_pool_def example_tx_def example_remove_def)

section \<open>Suppression of the total\<close>

text \<open>
  C5. Whenever one of the three decoders produces a classified transaction over a pool whose
  asset type is the distinguished "unknown", the output's total amount is absent,
  whatever the leg amounts.
\<close>

theorem unknown_pool_total_absent:
  assumes "assetTypeName p = UNKNOWN"
  shows "(parseRemoveLiquidity lpd tx p d = (evs, Inr (Some t)) \<longrightarrow> totalAmount t = None)
       \<and> (parseAddLiquidity tx p d = (evs, Inr (Some t)) \<longrightarrow> totalAmount t = None)
       \<and> (parseExchange tx p d = (evs, Inr (Some t)) \<longrightarrow> totalAmount t = None)"
proof (intro conjI impI)
  assume "parseRemoveLiquidity lpd tx p d = (evs, Inr (Some t))"
  then show "totalAmount t = None" using assms
    by (auto simp: parseRemoveLiquidity_def assemble_def Let_def
        split: if_splits sum.splits option.splits)
next
  assume "parseAddLiquidity tx p d = (evs, Inr (Some t))"
  from parseAddLiquidity_produced [OF this] show "totalAmount t = None" using assms
    by (auto simp: assemble_def)
next
  assume "parseExchange tx p d = (evs, Inr (Some t))"
  from parseExchange_produced [OF this] show "totalAmount t = None" using assms
    by (auto simp: assemble_def)
qed

text \<open>
  Over the example pool with its asset type set to unknown, each decoder produces a
  transaction, and its total is absent.
\<close>

theorem unknown_pool_total_absent_witness:
  "assetTypeName unknown_pool = UNKNOWN
   \<and> map_option totalAmount
        (produced (parseRemoveLiquidity 18 example_tx unknown_pool example_remove)) = Some None
   \<and> map_option totalAmount
        (produced (parseAddLiquidity example_tx unknown_pool example_add)) = Some None
   \<and> map_option totalAmount
        (produced (parseExchange example_tx unknown_pool example_exchange)) = Some None"
proof -
  have u: "assetTypeName unknown_pool = UNKNOWN" by (simp add: example_coins_def example_interface_def example_pool_def example_tx_def unknown_pool_def example_remove_def example_add_def
      example_exchange_def)
  have r: "produced (parseRemoveLiquidity 18 example_tx unknown_pool example_remove) \<noteq> None"
    "fst (parseRemoveLiquidity 18 example_tx unknown_pool example_remove) = []"
    by (simp_all add: produced_def parseRemoveLiquidity_def example_coins_def example_interface_def example_pool_def example_tx_def unknown_pool_def example_remove_def example_add_def
      example_exchange_def)
  have a: "produced (parseAddLiquidity example_tx unknown_pool example_add) \<noteq> None"
    "fst (parseAddLiquidity example_tx unknown_pool example_add) = []"
    by (simp_all add: produced_def parseAddLiquidity_def coin_at_def example_coins_def example_interface_def example_pool_def example_tx_def unknown_pool_def example_remove_def example_add_def
      example_exchange_def)
  have e: "produced (parseExchange example_tx unknown_pool example_exchange) \<noteq> None"
    "fst (parseExchange example_tx unknown_pool example_exchange) = []"
    by (simp_all add: produced_def parseExchange_def coin_at_def example_coins_def example_interface_def example_pool_def example_tx_def unknown_pool_def example_remove_def example_add_def
      example_exchange_def)
  from unknown_pool_total_absent [OF u, where lpd = 18 and tx = example_tx
      and d = example_remove and evs = "[]"] produced_eq [OF r]
  have 1: "totalAmount
      (the (produced (parseRemoveLiquidity 18 example_tx unknown_pool example_remove))) = None"
    by blast
  from unknown_pool_total_absent [OF u, where tx = example_tx
      and d = example_add and evs = "[]"] produced_eq [OF a]
  have 2: "totalAmount
      (the (produced (parseAddLiquidity example_tx unknown_pool example_add))) = None"
    by blast
  from unknown_pool_total_absent [OF u, where tx = example_tx
      and d = example_exchange and evs = "[]"] produced_eq [OF e]
  have 3: "totalAmount
      (the (produced (parseExchange example_tx unknown_pool example_exchange))) = None"
    by blast
  from u 1 2 3 r(1) a(1) e(1) show ?thesis by auto
qed

section \<open>The total and the sum of the leg amounts\<close>

text \<open>
  C6, as amended. Over a pool whose asset type is not "unknown": for every transaction
  produced from \<^verbatim>\<open>exchange\<close> the total amount is present and equals the sum of the leg
  amounts that are present; for every transaction produced from \<^verbatim>\<open>add_liquidity\<close> or
  \<^verbatim>\<open>remove_liquidity_imbalance\<close> the total amount is present and equals the sum of the
  present leg amounts as the decimal arithmetic accumulates it (from 0, in leg order, each
  partial sum rounded to 20 significant digits), which is their exact sum whenever no
  partial sum has more than 20 significant digits; for every transaction produced from
  \<^verbatim>\<open>remove_liquidity_one_coin\<close> or balanced \<^verbatim>\<open>remove_liquidity\<close>, no leg has an amount
  and the total is the burn amount divided by 10 to the LP-token precision constant.
\<close>

theorem total_is_sum_of_present_amounts:
  assumes "assetTypeName p \<noteq> UNKNOWN"
  shows "(parseAddLiquidity tx p d = (evs, Inr (Some t)) \<longrightarrow>
            totalAmount t = Some (rounded_sum (List.map_filter amount (tokens t))) \<and>
            (sums_exact 0 (List.map_filter amount (tokens t)) \<longrightarrow>
               totalAmount t = Some (sum_present (tokens t))))
       \<and> (parseExchange tx p d = (evs, Inr (Some t)) \<longrightarrow>
            totalAmount t = Some (sum_present (tokens t)))
       \<and> (parseRemoveLiquidity lpd tx p d = (evs, Inr (Some t)) \<and>
            name d = ''remove_liquidity_imbalance'' \<longrightarrow>
            totalAmount t = Some (rounded_sum (List.map_filter amount (tokens t))) \<and>
            (sums_exact 0 (List.map_filter amount (tokens t)) \<longrightarrow>
               totalAmount t = Some (sum_present (tokens t))))
       \<and> (parseRemoveLiquidity lpd tx p d = (evs, Inr (Some t)) \<and>
            name d = ''remove_liquidity_one_coin'' \<longrightarrow>
            (\<forall>l \<in> set (tokens t). amount l = None) \<and>
            (\<exists>burn. nullish (args d ''_token_amount'')
                      (nullish (args d ''token_amount'') (args d ''_burn_amount''))
                    = Some (BigNumber burn)
                  \<and> totalAmount t = Some (of_int burn / 10 ^ lpd)))
       \<and> (parseRemoveLiquidity lpd tx p d = (evs, Inr (Some t)) \<and>
            name d = ''remove_liquidity'' \<longrightarrow>
            (\<forall>l \<in> set (tokens t). amount l = None) \<and>
            (\<exists>burn. nullish (args d ''_amount'') (args d ''_burn_amount'')
                    = Some (BigNumber burn)
                  \<and> totalAmount t = Some (of_int burn / 10 ^ lpd)))"
proof (intro conjI)
  show "parseAddLiquidity tx p d = (evs, Inr (Some t)) \<longrightarrow>
            totalAmount t = Some (rounded_sum (List.map_filter amount (tokens t))) \<and>
            (sums_exact 0 (List.map_filter amount (tokens t)) \<longrightarrow>
               totalAmount t = Some (sum_present (tokens t)))"
  proof
    assume "parseAddLiquidity tx p d = (evs, Inr (Some t))"
    from parseAddLiquidity_produced [OF this] obtain ls tot where
      l: "amounts_legs add (coins p)
         (nullish (args d ''_amounts'') (nullish (args d ''amounts'') (args d ''uamounts'')))
       = Inr (ls, tot)" and t: "t = assemble tx p ADD_LIQUIDITY tot ls" by blast
    from amounts_legs_sound [OF l] have "tot = rounded_sum (List.map_filter amount ls)"
      by simp
    with t assms
    show "totalAmount t = Some (rounded_sum (List.map_filter amount (tokens t))) \<and>
          (sums_exact 0 (List.map_filter amount (tokens t)) \<longrightarrow>
             totalAmount t = Some (sum_present (tokens t)))"
      by (simp add: assemble_def sum_present_def rounded_sum_exact)
  qed
next
  show "parseExchange tx p d = (evs, Inr (Some t)) \<longrightarrow>
            totalAmount t = Some (sum_present (tokens t))"
  proof
    assume "parseExchange tx p d = (evs, Inr (Some t))"
    from parseExchange_produced [OF this] assms
    show "totalAmount t = Some (sum_present (tokens t))"
      by (auto simp: assemble_def sum_present_def List.map_filter_simps)
  qed
next
  show "parseRemoveLiquidity lpd tx p d = (evs, Inr (Some t)) \<and>
            name d = ''remove_liquidity_imbalance'' \<longrightarrow>
            totalAmount t = Some (rounded_sum (List.map_filter amount (tokens t))) \<and>
            (sums_exact 0 (List.map_filter amount (tokens t)) \<longrightarrow>
               totalAmount t = Some (sum_present (tokens t)))"
  proof
    assume "parseRemoveLiquidity lpd tx p d = (evs, Inr (Some t)) \<and>
      name d = ''remove_liquidity_imbalance''"
    then obtain ls tot where
      l: "amounts_legs remove (coins p) (nullish (args d ''_amounts'') (args d ''amounts''))
       = Inr (ls, tot)" and t: "t = assemble tx p REMOVE_LIQUIDITY tot ls"
      using parseRemoveLiquidity_imbalance_produced by blast
    from amounts_legs_sound [OF l] have "tot = rounded_sum (List.map_filter amount ls)"
      by simp
    with t assms
    show "totalAmount t = Some (rounded_sum (List.map_filter amount (tokens t))) \<and>
          (sums_exact 0 (List.map_filter amount (tokens t)) \<longrightarrow>
             totalAmount t = Some (sum_present (tokens t)))"
      by (simp add: assemble_def sum_present_def rounded_sum_exact)
  qed
next
  show "parseRemoveLiquidity lpd tx p d = (evs, Inr (Some t)) \<and>
            name d = ''remove_liquidity_one_coin'' \<longrightarrow>
            (\<forall>l \<in> set (tokens t). amount l = None) \<and>
            (\<exists>burn. nullish (args d ''_token_amount'')
                      (nullish (args d ''token_amount'') (args d ''_burn_amount''))
                    = Some (BigNumber burn)
                  \<and> totalAmount t = Some (of_int burn / 10 ^ lpd))"
  proof (intro impI conjI)
    assume a: "parseRemoveLiquidity lpd tx p d = (evs, Inr (Some t)) \<and>
      name d = ''remove_liquidity_one_coin''"
    then show "\<forall>l \<in> set (tokens t). amount l = None"
      by (auto simp: parseRemoveLiquidity_def assemble_def Let_def
          split: sum.splits option.splits)
    from a assms show "\<exists>burn. nullish (args d ''_token_amount'')
                        (nullish (args d ''token_amount'') (args d ''_burn_amount''))
                      = Some (BigNumber burn)
                    \<and> totalAmount t = Some (of_int burn / 10 ^ lpd)"
      by (auto simp: parseRemoveLiquidity_def assemble_def Let_def formatUnits_Inr
          split: sum.splits option.splits)
  qed
next
  show "parseRemoveLiquidity lpd tx p d = (evs, Inr (Some t)) \<and>
            name d = ''remove_liquidity'' \<longrightarrow>
            (\<forall>l \<in> set (tokens t). amount l = None) \<and>
            (\<exists>burn. nullish (args d ''_amount'') (args d ''_burn_amount'')
                    = Some (BigNumber burn)
                  \<and> totalAmount t = Some (of_int burn / 10 ^ lpd))"
  proof (intro impI conjI)
    assume a: "parseRemoveLiquidity lpd tx p d = (evs, Inr (Some t)) \<and>
      name d = ''remove_liquidity''"
    then show "\<forall>l \<in> set (tokens t). amount l = None"
      by (auto simp: parseRemoveLiquidity_def assemble_def Let_def
          split: sum.splits option.splits)
    from a assms show "\<exists>burn. nullish (args d ''_amount'') (args d ''_burn_amount'')
                      = Some (BigNumber burn)
                    \<and> totalAmount t = Some (of_int burn / 10 ^ lpd)"
      by (auto simp: parseRemoveLiquidity_def assemble_def Let_def formatUnits_Inr
          split: sum.splits option.splits)
  qed
qed

text \<open>
  At the example calls: the totals 4, 5/2 and 4 are the sums of the present leg amounts;
  the two burn calls have the total 5 and legs without amounts.
\<close>

theorem total_is_sum_of_present_amounts_witness:
  "assetTypeName example_pool \<noteq> UNKNOWN
   \<and> map_option (\<lambda>t. (totalAmount t, rounded_sum (List.map_filter amount (tokens t)),
                      sum_present (tokens t)))
        (produced (parseAddLiquidity example_tx example_pool example_add)) = Some (Some 4, 4, 4)
   \<and> map_option (\<lambda>t. (totalAmount t, sum_present (tokens t)))
        (produced (parseExchange example_tx example_pool example_exchange))
       = Some (Some (5 / 2), 5 / 2)
   \<and> map_option (\<lambda>t. (totalAmount t, rounded_sum (List.map_filter amount (tokens t)),
                      sum_present (tokens t)))
        (produced (parseRemoveLiquidity 18 example_tx example_pool example_imbalance))
       = Some (Some 4, 4, 4)
   \<and> map_option (\<lambda>t. (totalAmount t, map amount (tokens t)))
        (produced (parseRemoveLiquidity 18 example_tx example_pool example_one_coin))
       = Some (Some 5, [None])
   \<and> map_option (\<lambda>t. (totalAmount t, map amount (tokens t)))
        (produced (parseRemoveLiquidity 18 example_tx example_pool example_remove))
       = Some (Some 5, [None, None, None])"
proof -
  have k: "assetTypeName example_pool \<noteq> UNKNOWN" by (simp add: example_coins_def example_interface_def example_pool_def example_tx_def example_add_def example_exchange_def
      example_imbalance_def example_one_coin_def example_remove_def)
  have a: "produced (parseAddLiquidity example_tx example_pool example_add) \<noteq> None"
    "fst (parseAddLiquidity example_tx example_pool example_add) = []"
    by (simp_all add: produced_def parseAddLiquidity_def coin_at_def example_coins_def example_interface_def example_pool_def example_tx_def example_add_def example_exchange_def
      example_imbalance_def example_one_coin_def example_remove_def)
  have e: "produced (parseExchange example_tx example_pool example_exchange) \<noteq> None"
    "fst (parseExchange example_tx example_pool example_exchange) = []"
    by (simp_all add: produced_def parseExchange_def coin_at_def example_coins_def example_interface_def example_pool_def example_tx_def example_add_def example_exchange_def
      example_imbalance_def example_one_coin_def example_remove_def)
  have i: "produced (parseRemoveLiquidity 18 example_tx example_pool example_imbalance) \<noteq> None"
    "fst (parseRemoveLiquidity 18 example_tx example_pool example_imbalance) = []"
    by (simp_all add: produced_def parseRemoveLiquidity_def coin_at_def example_coins_def example_interface_def example_pool_def example_tx_def example_add_def example_exchange_def
      example_imbalance_def example_one_coin_def example_remove_def)
  have ni: "name example_imbalance = ''remove_liquidity_imbalance''"
    by (simp add: example_coins_def example_interface_def example_pool_def example_tx_def example_add_def example_exchange_def
      example_imbalance_def example_one_coin_def example_remove_def)
  have o: "produced (parseRemoveLiquidity 18 example_tx example_pool example_one_coin) \<noteq> None"
    "fst (parseRemoveLiquidity 18 example_tx example_pool example_one_coin) = []"
    by (simp_all add: produced_def parseRemoveLiquidity_def coin_at_def example_coins_def example_interface_def example_pool_def example_tx_def example_add_def example_exchange_def
      example_imbalance_def example_one_coin_def example_remove_def)
  have no: "name example_one_coin = ''remove_liquidity_one_coin''"
    by (simp add: example_coins_def example_interface_def example_pool_def example_tx_def example_add_def example_exchange_def
      example_imbalance_def example_one_coin_def example_remove_def)
  have r: "produced (parseRemoveLiquidity 18 example_tx example_pool example_remove) \<noteq> None"
    "fst (parseRemoveLiquidity 18 example_tx example_pool example_remove) = []"
    by (simp_all add: produced_def parseRemoveLiquidity_def coin_at_def example_coins_def example_interface_def example_pool_def example_tx_def example_add_def example_exchange_def
      example_imbalance_def example_one_coin_def example_remove_def)
  have nr: "name example_remove = ''remove_liquidity''"
    by (simp add: example_coins_def example_interface_def example_pool_def example_tx_def example_add_def example_exchange_def
      example_imbalance_def example_one_coin_def example_remove_def)
  note T = total_is_sum_of_present_amounts [OF k, where tx = example_tx and evs = "[]"]
  from T [where d = example_add] produced_eq [OF a]
  have 1: "totalAmount (the (produced (parseAddLiquidity example_tx example_pool example_add)))
      = Some (rounded_sum (List.map_filter amount (tokens
          (the (produced (parseAddLiquidity example_tx example_pool example_add))))))"
    by blast
  from T [where d = example_exchange] produced_eq [OF e]
  have 2: "totalAmount (the (produced (parseExchange example_tx example_pool example_exchange)))
      = Some (sum_present (tokens
          (the (produced (parseExchange example_tx example_pool example_exchange)))))"
    by blast
  from T [where d = example_imbalance and lpd = 18] produced_eq [OF i] ni
  have 3: "totalAmount
        (the (produced (parseRemoveLiquidity 18 example_tx example_pool example_imbalance)))
      = Some (rounded_sum (List.map_filter amount (tokens
          (the (produced (parseRemoveLiquidity 18 example_tx example_pool example_imbalance))))))"
    by blast
  from T [where d = example_one_coin and lpd = 18] produced_eq [OF o] no
  have 4: "\<forall>l \<in> set (tokens
        (the (produced (parseRemoveLiquidity 18 example_tx example_pool example_one_coin)))).
      amount l = None"
    by blast
  from T [where d = example_remove and lpd = 18] produced_eq [OF r] nr
  have 5: "\<forall>l \<in> set (tokens
        (the (produced (parseRemoveLiquidity 18 example_tx example_pool example_remove)))).
      amount l = None"
    by blast
  from 1 2 3 4 5 show ?thesis
    by (simp add: produced_def parseAddLiquidity_def parseExchange_def
        parseRemoveLiquidity_def coin_at_def assemble_def sum_present_def rounded_sum_def
        Decimal_add_def precision_def finalise_def exponent10_def round_half_up_def
        digits10.simps Let_def floor_numeral_div ceiling_numeral_div
        List.map_filter_simps example_coins_def example_interface_def example_pool_def example_tx_def example_add_def example_exchange_def
      example_imbalance_def example_one_coin_def example_remove_def)
qed

text \<open>
  The claim as stated fails at \<^verbatim>\<open>remove_liquidity_one_coin\<close>: over a pool of known asset
  type the total is 5 (the LP tokens burnt) while no leg has an amount, so the sum of the
  present leg amounts is 0. It also fails at a \<^verbatim>\<open>remove_liquidity_imbalance\<close> whose
  sum has more than 20 significant digits: the legs 1.523482910384756102 and
  250000.000123 have the sum 250001.523605910384756102 and the total
  250001.52360591038476.
\<close>

theorem total_is_sum_of_present_amounts_counterexample:
  "assetTypeName example_pool \<noteq> UNKNOWN
   \<and> parseRemoveLiquidity 18 example_tx example_pool example_one_coin =
     ([], Inr (Some
        \<lparr>hash = ''0x5e1f'', pool = ''0xbebc'', timestamp = ''1654041600'',
         tx_type = REMOVE_LIQUIDITY, totalAmount = Some 5,
         tokens = [\<lparr>symbol = ''USDC'', address = ''0xa0b8'', amount = None, type = remove\<rparr>]\<rparr>))
   \<and> sum_present [\<lparr>symbol = ''USDC'', address = ''0xa0b8'', amount = None, type = remove\<rparr>] = 0
   \<and> Some (5 :: Decimal) \<noteq> Some 0
   \<and> parseRemoveLiquidity 18 example_tx example_pool long_imbalance =
     ([], Inr (Some
        \<lparr>hash = ''0x5e1f'', pool = ''0xbebc'', timestamp = ''1654041600'',
         tx_type = REMOVE_LIQUIDITY,
         totalAmount = Some (25000152360591038476 / 10 ^ 14),
         tokens = [\<lparr>symbol = ''DAI'', address = ''0x6b17'',
                    amount = Some (1523482910384756102 / 10 ^ 18), type = remove\<rparr>,
                   \<lparr>symbol = ''USDC'', address = ''0xa0b8'',
                    amount = Some (250000000123 / 10 ^ 6), type = remove\<rparr>]\<rparr>))
   \<and> sum_present [\<lparr>symbol = ''DAI'', address = ''0x6b17'',
                    amount = Some (1523482910384756102 / 10 ^ 18), type = remove\<rparr>,
                   \<lparr>symbol = ''USDC'', address = ''0xa0b8'',
                    amount = Some (250000000123 / 10 ^ 6), type = remove\<rparr>]
       = 250001523605910384756102 / 10 ^ 18
   \<and> Some (25000152360591038476 / 10 ^ 14 :: Decimal)
       \<noteq> Some (250001523605910384756102 / 10 ^ 18)"
  by (simp add: example_coins_def example_interface_def example_pool_def example_tx_def
      example_one_coin_def long_imbalance_def parseRemoveLiquidity_def coin_at_def assemble_def
      sum_present_def List.map_filter_simps
      Decimal_add_def precision_def finalise_def exponent10_def round_half_up_def
      digits10.simps Let_def floor_numeral_div ceiling_numeral_div)

section \<open>Zero amounts\<close>




section \<open>The guards and the decode failures of the classifier\<close>

text \<open>
  C8. For a transaction whose receipt status is not \<^verbatim>\<open>'1'\<close> or whose error flag is
  \<^verbatim>\<open>'1'\<close>, whatever the pool and its interface, \<^verbatim>\<open>parseTransaction\<close> returns with the
  decoded call and the classification both absent, and its list of events is empty: the
  decoder is not called (and nothing is logged).
\<close>

theorem failed_transaction_not_decoded:
  assumes "txreceipt_status tx \<noteq> ''1'' \<or> isError tx = ''1''"
  shows "parseTransaction CURVE_POOL_TOKEN_DECIMALS p tx =
     ([], Inr \<lparr>decodedInput = None, transaction = None\<rparr>)"
  using assms by (auto simp add: parseTransaction_def not_applicable_def)

text \<open>The example transaction with its error flag set, whose calldata would decode.\<close>

theorem failed_transaction_not_decoded_witness:
  "isError failed_tx = ''1''
   \<and> interface example_pool (tx_input failed_tx) (tx_value failed_tx) = Inr example_exchange
   \<and> parseTransaction 18 example_pool failed_tx =
     ([], Inr \<lparr>decodedInput = None, transaction = None\<rparr>)"
  using failed_transaction_not_decoded [of failed_tx 18 example_pool]
  by (simp add: example_coins_def example_interface_def example_pool_def example_tx_def example_exchange_def failed_tx_def)

text \<open>
  C9. When the guards pass and the decoder throws \<open>e\<close>, \<^verbatim>\<open>parseTransaction\<close> returns
  "not applicable" (both outputs absent) if and only if the code of \<open>e\<close> is
  \<^verbatim>\<open>INVALID_ARGUMENT\<close>; with any other code, or none, \<open>e\<close> itself is thrown to the caller.
  The decoder was called once.
\<close>

theorem decode_failure_classes:
  assumes "txreceipt_status tx = ''1''" "isError tx \<noteq> ''1''" "tx_to tx \<noteq> []"
    and "interface p (tx_input tx) (tx_value tx) = Inl e"
  shows "(snd (parseTransaction CURVE_POOL_TOKEN_DECIMALS p tx)
            = Inr \<lparr>decodedInput = None, transaction = None\<rparr>
          \<longleftrightarrow> error_code e = Some ''INVALID_ARGUMENT'')
       \<and> (error_code e \<noteq> Some ''INVALID_ARGUMENT'' \<longrightarrow>
            snd (parseTransaction CURVE_POOL_TOKEN_DECIMALS p tx) = Inl e)
       \<and> fst (parseTransaction CURVE_POOL_TOKEN_DECIMALS p tx)
           = [DecodeCall (tx_input tx) (tx_value tx)]"
  using assms by (simp add: parseTransaction_def not_applicable_def)

text \<open>
  Calldata of an unknown selector is not applicable; the decoder's \<^verbatim>\<open>TypeError\<close> on
  empty calldata reaches the caller.
\<close>

theorem decode_failure_classes_witness:
  "interface example_pool (tx_input unmatched_tx) (tx_value unmatched_tx)
     = Inl (EthersError ''INVALID_ARGUMENT'')
   \<and> parseTransaction 18 example_pool unmatched_tx =
       ([DecodeCall ''0xa9059cbb'' ''0''], Inr \<lparr>decodedInput = None, transaction = None\<rparr>)
   \<and> interface example_pool (tx_input empty_tx) (tx_value empty_tx) = Inl TypeError
   \<and> parseTransaction 18 example_pool empty_tx = ([DecodeCall ''0x'' ''0''], Inl TypeError)"
  using decode_failure_classes [of unmatched_tx example_pool "EthersError ''INVALID_ARGUMENT''" 18]
    decode_failure_classes [of empty_tx example_pool TypeError 18]
  by (simp add: example_coins_def example_interface_def example_pool_def example_tx_def unmatched_tx_def empty_tx_def prod_eq_iff)

section \<open>Coin indices\<close>

text \<open>
  C10, as amended. The exchange and \<^verbatim>\<open>remove_liquidity_one_coin\<close> decoders index the
  pool's coins with the decoded coin indices without a bounds check. When every decoded
  coin index is a non-negative integer less than the number of pool coins, the lookups
  yield the coins at those indices and a transaction is produced; when some decoded index
  is negative or not less than the number of pool coins, the decoder throws: it does not
  return "not applicable".
\<close>

theorem coin_index_lookup:
  assumes "length (coins p) < 2 ^ 32"
  shows "(name d = ''exchange'' \<and> args d ''i'' = Some (BigNumber i) \<and>
          args d ''j'' = Some (BigNumber j) \<and>
          nullish (args d ''dx'') (args d ''_dx'') = Some (BigNumber dx) \<longrightarrow>
          (if (0 \<le> i \<and> nat i < length (coins p)) \<and> (0 \<le> j \<and> nat j < length (coins p))
           then coin_at (coins p) i = Some (coins p ! nat i) \<and>
                coin_at (coins p) j = Some (coins p ! nat j) \<and>
                (\<exists>t. parseExchange tx p d = ([], Inr (Some t)))
           else (\<exists>e. parseExchange tx p d = ([], Inl e))))
       \<and> (name d' = ''remove_liquidity_one_coin'' \<and> args d' ''i'' = Some (BigNumber k) \<and>
          nullish (args d' ''_token_amount'')
            (nullish (args d' ''token_amount'') (args d' ''_burn_amount''))
            = Some (BigNumber burn) \<longrightarrow>
          (if 0 \<le> k \<and> nat k < length (coins p)
           then coin_at_key (coins p) (args d' ''i'') = Some (coins p ! nat k) \<and>
                (\<exists>t. parseRemoveLiquidity lpd tx p d' = ([], Inr (Some t)))
           else (\<exists>e. parseRemoveLiquidity lpd tx p d' = ([], Inl e))))"
proof (intro conjI impI)
  assume a: "name d = ''exchange'' \<and> args d ''i'' = Some (BigNumber i) \<and>
          args d ''j'' = Some (BigNumber j) \<and>
          nullish (args d ''dx'') (args d ''_dx'') = Some (BigNumber dx)"
  show "if (0 \<le> i \<and> nat i < length (coins p)) \<and> (0 \<le> j \<and> nat j < length (coins p))
           then coin_at (coins p) i = Some (coins p ! nat i) \<and>
                coin_at (coins p) j = Some (coins p ! nat j) \<and>
                (\<exists>t. parseExchange tx p d = ([], Inr (Some t)))
           else (\<exists>e. parseExchange tx p d = ([], Inl e))"
  proof (cases "(0 \<le> i \<and> nat i < length (coins p)) \<and> (0 \<le> j \<and> nat j < length (coins p))")
    case True
    then have "nat i < 4294967296" "nat j < 4294967296" using assms by simp_all
    with True have "\<bar>i\<bar> < 2 ^ 53" "\<bar>j\<bar> < 2 ^ 53" by simp_all
    with True a show ?thesis by (simp add: parseExchange_def coin_at_def)
  next
    case False
    with a show ?thesis by (auto simp: parseExchange_def coin_at_def)
  qed
next
  assume a: "name d' = ''remove_liquidity_one_coin'' \<and> args d' ''i'' = Some (BigNumber k) \<and>
          nullish (args d' ''_token_amount'')
            (nullish (args d' ''token_amount'') (args d' ''_burn_amount''))
            = Some (BigNumber burn)"
  then show "if 0 \<le> k \<and> nat k < length (coins p)
           then coin_at_key (coins p) (args d' ''i'') = Some (coins p ! nat k) \<and>
                (\<exists>t. parseRemoveLiquidity lpd tx p d' = ([], Inr (Some t)))
           else (\<exists>e. parseRemoveLiquidity lpd tx p d' = ([], Inl e))"
    by (auto simp: parseRemoveLiquidity_def coin_at_def)
qed

text \<open>
  In the three-coin pool: the exchange from coin 0 to coin 1 and the withdrawal of coin 1
  find their coins; the withdrawal of coin 3 throws.
\<close>

theorem coin_index_lookup_witness:
  "length (coins example_pool) < 2 ^ 32
   \<and> coin_at (coins example_pool) 0 = Some (coins example_pool ! 0)
   \<and> coin_at (coins example_pool) 1 = Some (coins example_pool ! 1)
   \<and> produced (parseExchange example_tx example_pool example_exchange) \<noteq> None
   \<and> coin_at_key (coins example_pool) (args example_one_coin ''i'')
       = Some (coins example_pool ! 1)
   \<and> produced (parseRemoveLiquidity 18 example_tx example_pool example_one_coin) \<noteq> None
   \<and> parseRemoveLiquidity 18 example_tx example_pool one_coin_out_of_range
       = ([], Inl TypeError)"
  using coin_index_lookup [of example_pool example_exchange 0 1 2500000000000000000
      example_tx example_one_coin 1 5000000000000000000 18]
    coin_index_lookup [of example_pool example_exchange 0 1 2500000000000000000
      example_tx one_coin_out_of_range 3 5000000000000000000 18]
  by (simp add: produced_def parseExchange_def parseRemoveLiquidity_def coin_at_def
      assemble_def example_coins_def example_interface_def example_pool_def example_tx_def example_exchange_def example_one_coin_def
      one_coin_out_of_range_def)

text \<open>
  The claim as stated fails at a negative decoded index (the pools' \<^verbatim>\<open>int128\<close> indices
  are signed): \<open>- 1\<close> is less than the number of pool coins, \<^verbatim>\<open>pool.coins[-1]\<close> is
  \<^verbatim>\<open>undefined\<close>, and the exchange decoder throws a \<^verbatim>\<open>TypeError\<close>.
\<close>

theorem coin_index_lookup_counterexample:
  "(- 1 :: int) < int (length (coins example_pool))
   \<and> args negative_exchange ''i'' = Some (BigNumber (- 1))
   \<and> coin_at (coins example_pool) (- 1) = None
   \<and> parseExchange example_tx example_pool negative_exchange = ([], Inl TypeError)"
  by (simp add: example_coins_def example_interface_def example_pool_def example_tx_def negative_exchange_def parseExchange_def coin_at_def)

end
